theory Spec2Isabelle
  imports Complex_Main "HOL-Library.Word"
begin

section \<open>The WebRtc data channel wrapper (src/src/webrtc/datachannel.ts)\<close>

text \<open>
  The class \<open>DataChannel\<close> wraps a transport object (\<open>rtcDataChannel_\<close>) and runs on a
  single-threaded event loop. The embedding is a state record for the object and one
  function per method or callback of the class, each taking the state and returning the
  new one. Everything asynchronous is an event: the reply to \<open>getReadyState\<close>, the
  transport's \<open>onopen\<close>, \<open>onclose\<close>, \<open>onmessage\<close> and \<open>onerror\<close> events, the reply
  to a \<open>getBufferedAmount\<close> request, a timer that fires, and the calls of the
  application. A function \<open>step\<close> runs one event together with the promise reactions
  it triggers, which JavaScript runs before the next event is taken.

  Source names ending in an underscore lose it here (\<open>toPeerDataQueue_\<close> is
  \<open>toPeerDataQueue\<close>), because such names are not accepted for constants.
\<close>

subsection \<open>Constants (lines 17, 25, 28)\<close>

definition CHUNK_SIZE :: nat where
  "CHUNK_SIZE = 1024 * 15"

definition PC_QUEUE_LIMIT :: nat where
  "PC_QUEUE_LIMIT = 1024 * 250"

definition MAX_MESSAGE_SIZE :: nat where
  "MAX_MESSAGE_SIZE = 2 ^ 53"

subsection \<open>JavaScript values\<close>

text \<open>
  A string is its sequence of UTF-16 code units, so \<open>length\<close> is \<open>str.length\<close>; an
  ArrayBuffer is its sequence of bytes, so \<open>length\<close> is \<open>byteLength\<close>. The fields of
  \<open>Data\<close> are optional in the interface and unchecked at run time, so a field holds any
  value: \<open>Undefined\<close> when absent, and \<open>JObject\<close> stands for any object that is not an
  ArrayBuffer. The language limits both lengths to \<open>2^53 - 1\<close>; the lists here are
  not limited, and theorems state the bound where it matters.
\<close>

type_synonym jsstring = "16 word list"

type_synonym ArrayBuffer = "8 word list"

datatype jsval =
    Undefined
  | Null
  | JBoolean bool
  | JNumber int
  | JString jsstring
  | JArrayBuffer ArrayBuffer
  | JObject nat

fun typeof :: "jsval \<Rightarrow> string" where
  "typeof Undefined = ''undefined''"
| "typeof Null = ''object''"
| "typeof (JBoolean b) = ''boolean''"
| "typeof (JNumber n) = ''number''"
| "typeof (JString t) = ''string''"
| "typeof (JArrayBuffer b) = ''object''"
| "typeof (JObject k) = ''object''"

fun instanceof_ArrayBuffer :: "jsval \<Rightarrow> bool" where
  "instanceof_ArrayBuffer (JArrayBuffer b) = True"
| "instanceof_ArrayBuffer v = False"

text \<open>Truthiness, as \<open>if (data.buffer)\<close> tests it.\<close>

fun truthy :: "jsval \<Rightarrow> bool" where
  "truthy Undefined = False"
| "truthy Null = False"
| "truthy (JBoolean b) = b"
| "truthy (JNumber n) = (n \<noteq> 0)"
| "truthy (JString t) = (t \<noteq> [])"
| "truthy (JArrayBuffer b) = True"
| "truthy (JObject k) = True"

text \<open>\<open>v.length\<close> of a string and \<open>v.byteLength\<close> of a buffer; \<open>None\<close> is
  \<open>undefined\<close>, what the property is on a value that has none.\<close>

fun string_length :: "jsval \<Rightarrow> nat option" where
  "string_length (JString t) = Some (length t)"
| "string_length v = None"

fun byteLength :: "jsval \<Rightarrow> nat option" where
  "byteLength (JArrayBuffer b) = Some (length b)"
| "byteLength v = None"

subsection \<open>Data, errors, promises (lines 32-47)\<close>

record Data =
  str :: jsval
  buffer :: jsval

text \<open>A message of the transport, \<open>freedom_RTCDataChannel.Message\<close>: the declaration is
  not among the sources; \<open>onDataFromPeer_\<close> reads its fields \<open>text\<close> and
  \<open>buffer\<close>.\<close>

record Message =
  msg_text :: jsval
  msg_buffer :: jsval

text \<open>What the transport's send primitive throws (a \<open>NetworkError\<close>, say).\<close>

type_synonym exn = string

text \<open>The \<open>Error\<close> objects the class creates, one constructor for each \<open>new Error\<close> of the
  source: line 162 (with the three values its message prints), line 179, line 218,
  line 224, line 116.\<close>

datatype error =
    Error_must_have_str_or_buffer string string bool
  | Error_too_big
  | Error_bad_data Data
  | Error_in_send exn
  | Error_failed_to_open

text \<open>The state of a promise. A promise that a function returns is given by the state it
  settles in without any further event (\<open>Promise.resolve()\<close> is \<open>Fulfilled\<close>,
  \<open>Promise.reject(e)\<close> is \<open>Rejected e\<close>); \<open>Pending\<close> is a promise that waits for a
  later event.\<close>

datatype promise = Pending | Fulfilled | Rejected error

fun is_rejected :: "promise \<Rightarrow> bool" where
  "is_rejected (Rejected e) = True"
| "is_rejected p = False"

text \<open>\<open>Promise.all(promises).then(() => { return; })\<close> (line 205): rejected with the first
  rejection, fulfilled when every promise is, pending otherwise.\<close>

definition Promise_all :: "promise list \<Rightarrow> promise" where
  "Promise_all ps =
     (case find is_rejected ps of
        Some r \<Rightarrow> r
      | None \<Rightarrow> if list_all (\<lambda>p. p = Fulfilled) ps then Fulfilled else Pending)"

datatype log_entry =
    Log_error_onerror
  | Log_error_unexpected_data Message
  | Log_debug_error_in_send exn

subsection \<open>The transport\<close>

text \<open>
  Modelled from the spec: the transport object \<open>freedom_RTCDataChannel.RTCDataChannel\<close>,
  whose declaration and implementation are not among the sources. The spec gives its
  interface: \<open>send(text)\<close> and \<open>sendBuffer(binary)\<close> are synchronous and may throw a
  delivery error, \<open>close()\<close> is fire-and-forget, \<open>getReadyState\<close> and
  \<open>getBufferedAmount\<close> answer asynchronously. The transport is the history of the
  calls of its send primitive, \<open>sendCalls\<close> (every invocation, also one that throws), the
  number of calls of \<open>close\<close>, and \<open>sendThrows\<close>: what the send primitive does at
  present with each argument, \<open>None\<close> for accepting it and \<open>Some e\<close> for throwing
  \<open>e\<close>. The environment may change \<open>sendThrows\<close> at any time.
\<close>

datatype rtc_call = Rtc_send jsval | Rtc_sendBuffer jsval

record RTCDataChannel =
  sendCalls :: "rtc_call list"
  sendThrows :: "rtc_call \<Rightarrow> exn option"
  closeCalls :: nat

subsection \<open>The state of a DataChannel (lines 57-74)\<close>

text \<open>
  Modelled from the spec: the class \<open>Handler.Queue\<close> (\<open>../handler/queue\<close>), which is
  not among the sources. The spec describes the outbound queue as a single-consumer FIFO
  whose consumption is either active (entries are handed to the handler as they arrive)
  or suspended (entries accumulate), initially suspended. It is the list of waiting
  entries \<open>toPeerDataQueue\<close>, the flag \<open>toPeerDataQueue_handler\<close> (a handler is set;
  the only handler this class ever sets is \<open>handleSendDataToPeer_\<close>), and
  \<open>toPeerDataQueue_settled\<close>: the waiting entries that were handed to the handler,
  each with the promise the handler returned, with which the queue settles the entry's
  completion future. The inbound queue \<open>dataFromPeerQueue\<close> is the list of values
  handed to it, in order; the application that consumes it is not part of the class.

  \<open>opennedSuccessfully\<close> is never initialised by the constructor: \<open>None\<close> is
  \<open>undefined\<close>. The last five fields are the event loop's view of the object: whether
  the reply to the constructor's \<open>getReadyState\<close> is outstanding, whether the
  \<open>onopen\<close> listener is registered, how many \<open>getBufferedAmount\<close> replies are
  outstanding, the delays of the timers set and not yet fired, and the log.
\<close>

record DataChannel =
  rtcDataChannel :: RTCDataChannel
  dataFromPeerQueue :: "Data list"
  toPeerDataQueue :: "Data list"
  toPeerDataQueue_handler :: bool
  toPeerDataQueue_settled :: "(Data \<times> promise) list"
  onceOpened :: promise
  onceClosed :: promise
  opennedSuccessfully :: "bool option"
  getReadyState_pending :: bool
  onopen_listener :: bool
  getBufferedAmount_pending :: nat
  timeouts :: "nat list"
  logged :: "log_entry list"

text \<open>The constructor (lines 81-121), up to the first event: both queues are new, both
  promises pending, the request for the ready state is out.\<close>

definition DataChannel_new :: "RTCDataChannel \<Rightarrow> DataChannel" where
  "DataChannel_new rtc =
     \<lparr> rtcDataChannel = rtc,
       dataFromPeerQueue = [],
       toPeerDataQueue = [],
       toPeerDataQueue_handler = False,
       toPeerDataQueue_settled = [],
       onceOpened = Pending,
       onceClosed = Pending,
       opennedSuccessfully = None,
       getReadyState_pending = True,
       onopen_listener = False,
       getBufferedAmount_pending = 0,
       timeouts = [],
       logged = [] \<rparr>"

subsection \<open>The drain step and the congestion controller (lines 209-247)\<close>

text \<open>A call of the transport's send primitive: the call is recorded, and the result is
  the exception thrown, if any.\<close>

definition rtc_invoke :: "rtc_call \<Rightarrow> DataChannel \<Rightarrow> exn option \<times> DataChannel" where
  "rtc_invoke c s =
     (sendThrows (rtcDataChannel s) c,
      s\<lparr>rtcDataChannel :=
          (rtcDataChannel s)\<lparr>sendCalls := sendCalls (rtcDataChannel s) @ [c]\<rparr>\<rparr>)"

text \<open>\<open>conjestionControlSendHandler\<close> (line 234), the synchronous part: it asks the
  transport for its buffered amount. The callback is \<open>onBufferedAmount\<close> below.\<close>

definition conjestionControlSendHandler :: "DataChannel \<Rightarrow> DataChannel" where
  "conjestionControlSendHandler s =
     s\<lparr>getBufferedAmount_pending := getBufferedAmount_pending s + 1\<rparr>"

text \<open>The \<open>catch\<close> block of \<open>handleSendDataToPeer_\<close> (lines 222-226).\<close>

definition catch_send :: "exn \<Rightarrow> DataChannel \<Rightarrow> promise \<times> DataChannel" where
  "catch_send e s =
     (Rejected (Error_in_send e), s\<lparr>logged := logged s @ [Log_debug_error_in_send e]\<rparr>)"

text \<open>\<open>handleSendDataToPeer_\<close> (lines 209-229). Both calls of the send primitive are
  inside the \<open>try\<close>; an exception goes to \<open>catch_send\<close>, and only a call that returns
  reaches the congestion controller.\<close>

definition handleSendDataToPeer :: "Data \<Rightarrow> DataChannel \<Rightarrow> promise \<times> DataChannel" where
  "handleSendDataToPeer data s =
     (if typeof (str data) = ''string'' then
        (case rtc_invoke (Rtc_send (str data)) s of
           (Some e, s') \<Rightarrow> catch_send e s'
         | (None, s') \<Rightarrow> (Fulfilled, conjestionControlSendHandler s'))
      else if truthy (buffer data) then
        (case rtc_invoke (Rtc_sendBuffer (buffer data)) s of
           (Some e, s') \<Rightarrow> catch_send e s'
         | (None, s') \<Rightarrow> (Fulfilled, conjestionControlSendHandler s'))
      else (Rejected (Error_bad_data data), s))"

subsection \<open>The outbound queue\<close>

text \<open>Modelled from the spec: the operations of \<open>Handler.Queue\<close> that the class uses on
  \<open>toPeerDataQueue_\<close>. \<open>handle\<close> hands the entry to the handler when one is set and
  makes it wait otherwise; \<open>setHandler\<close> sets the handler and drains the waiting
  entries in order for as long as a handler is set; \<open>stopHandling\<close> removes the
  handler.\<close>

definition isHandling :: "DataChannel \<Rightarrow> bool" where
  "isHandling s = toPeerDataQueue_handler s"

definition stopHandling :: "DataChannel \<Rightarrow> DataChannel" where
  "stopHandling s = s\<lparr>toPeerDataQueue_handler := False\<rparr>"

definition handle :: "Data \<Rightarrow> DataChannel \<Rightarrow> promise \<times> DataChannel" where
  "handle x s =
     (if toPeerDataQueue_handler s then handleSendDataToPeer x s
      else (Pending, s\<lparr>toPeerDataQueue := toPeerDataQueue s @ [x]\<rparr>))"

fun processQueue :: "Data list \<Rightarrow> DataChannel \<Rightarrow> DataChannel" where
  "processQueue [] s = s"
| "processQueue (x # xs) s =
     (if toPeerDataQueue_handler s then
        (case handleSendDataToPeer x (s\<lparr>toPeerDataQueue := xs\<rparr>) of
           (p, s') \<Rightarrow>
             processQueue xs
               (s'\<lparr>toPeerDataQueue_settled := toPeerDataQueue_settled s' @ [(x, p)]\<rparr>))
      else s)"

definition setHandler :: "DataChannel \<Rightarrow> DataChannel" where
  "setHandler s = processQueue (toPeerDataQueue s) (s\<lparr>toPeerDataQueue_handler := True\<rparr>)"

text \<open>The callback of \<open>getBufferedAmount\<close> in \<open>conjestionControlSendHandler\<close>
  (lines 235-246). \<open>setTimeout(this.conjestionControlSendHandler, 20)\<close> adds a timer of
  20 ms.\<close>

definition onBufferedAmount :: "nat \<Rightarrow> DataChannel \<Rightarrow> DataChannel" where
  "onBufferedAmount bufferedAmount s =
     (if bufferedAmount + CHUNK_SIZE > PC_QUEUE_LIMIT then
        (let s1 = (if isHandling s then stopHandling s else s)
         in s1\<lparr>timeouts := timeouts s1 @ [20]\<rparr>)
      else
        (if \<not> isHandling s then setHandler s else s))"

subsection \<open>send and the chunker (lines 154-206)\<close>

text \<open>
  Modelled from the spec: \<open>ArrayBuffers.chunk\<close> (\<open>../arraybuffers/arraybuffers\<close>), which
  is not among the sources. The spec: a binary payload is split "into an ordered sequence
  of fixed-size Chunks (last chunk may be shorter)". The class calls it with
  \<open>CHUNK_SIZE\<close> only; a size of 0 has no chunks here.
\<close>

function ArrayBuffers_chunk :: "ArrayBuffer \<Rightarrow> nat \<Rightarrow> ArrayBuffer list" where
  "ArrayBuffers_chunk b sz =
     (if b = [] \<or> sz = 0 then []
      else take sz b # ArrayBuffers_chunk (drop sz b) sz)"
  by pat_completeness auto
termination
  by (relation "measure (\<lambda>(b, sz). length b)") auto

declare ArrayBuffers_chunk.simps [simp del]

text \<open>\<open>chunkStringOntoQueue_\<close> (lines 193-195).\<close>

definition chunkStringOntoQueue :: "Data \<Rightarrow> DataChannel \<Rightarrow> promise \<times> DataChannel" where
  "chunkStringOntoQueue data s = handle data s"

text \<open>The \<open>forEach\<close> of \<open>chunkBufferOntoQueue_\<close> (lines 200-202): each chunk is handed
  to the queue as \<open>{buffer: chunk}\<close> and the promise is pushed onto \<open>promises\<close>.\<close>

fun forEach_chunk :: "ArrayBuffer list \<Rightarrow> promise list \<Rightarrow> DataChannel \<Rightarrow> promise list \<times> DataChannel" where
  "forEach_chunk [] promises s = (promises, s)"
| "forEach_chunk (chunk # chunks) promises s =
     (case handle \<lparr>str = Undefined, buffer = JArrayBuffer chunk\<rparr> s of
        (p, s') \<Rightarrow> forEach_chunk chunks (promises @ [p]) s')"

text \<open>\<open>chunkBufferOntoQueue_\<close> (lines 197-206).\<close>

definition chunkBufferOntoQueue :: "ArrayBuffer \<Rightarrow> DataChannel \<Rightarrow> promise \<times> DataChannel" where
  "chunkBufferOntoQueue b s =
     (case forEach_chunk (ArrayBuffers_chunk b CHUNK_SIZE) [] s of
        (promises, s') \<Rightarrow> (Promise_all promises, s'))"

text \<open>The variable \<open>byteLength\<close> of \<open>send\<close> (lines 170-176); \<open>None\<close> is
  \<open>undefined\<close>, when neither branch assigns it or the property read is undefined.\<close>

definition send_byteLength :: "Data \<Rightarrow> nat option" where
  "send_byteLength data =
     (if typeof (str data) = ''string'' then map_option (\<lambda>n. n * 2) (string_length (str data))
      else if truthy (buffer data) then byteLength (buffer data)
      else None)"

text \<open>\<open>byteLength > MAX_MESSAGE_SIZE\<close> (line 178): false when \<open>byteLength\<close> is
  \<open>undefined\<close>.\<close>

definition exceeds_MAX_MESSAGE_SIZE :: "nat option \<Rightarrow> bool" where
  "exceeds_MAX_MESSAGE_SIZE n = (case n of None \<Rightarrow> False | Some k \<Rightarrow> k > MAX_MESSAGE_SIZE)"

text \<open>\<open>send\<close> (lines 154-189). The result is the returned promise, \<open>None\<close> when the
  function falls off its end and returns \<open>undefined\<close>. \<open>chunkBufferOntoQueue_\<close> takes
  an ArrayBuffer: past the first test, when \<open>data.str\<close> is not a string,
  \<open>data.buffer\<close> is one, so the other case of the inner \<open>case\<close> is never taken, nor
  is the last \<open>else\<close> (\<open>send_returns_promise\<close> below).\<close>

definition send :: "Data \<Rightarrow> DataChannel \<Rightarrow> promise option \<times> DataChannel" where
  "send data s =
     (if \<not> (typeof (str data) = ''string'' \<or>
             (typeof (buffer data) = ''object'' \<and> instanceof_ArrayBuffer (buffer data))) then
        (Some (Rejected (Error_must_have_str_or_buffer (typeof (str data)) (typeof (buffer data))
                  (instanceof_ArrayBuffer (buffer data)))), s)
      else if exceeds_MAX_MESSAGE_SIZE (send_byteLength data) then
        (Some (Rejected Error_too_big), s)
      else if typeof (str data) = ''string'' then
        (case chunkStringOntoQueue \<lparr>str = str data, buffer = Undefined\<rparr> s of
           (p, s') \<Rightarrow> (Some p, s'))
      else if truthy (buffer data) then
        (case chunkBufferOntoQueue (case buffer data of JArrayBuffer b \<Rightarrow> b | _ \<Rightarrow> []) s of
           (p, s') \<Rightarrow> (Some p, s'))
      else (None, s))"

subsection \<open>Inbound messages (lines 137-145)\<close>

definition onDataFromPeer :: "Message \<Rightarrow> DataChannel \<Rightarrow> DataChannel" where
  "onDataFromPeer message s =
     (if typeof (msg_text message) = ''string'' then
        s\<lparr>dataFromPeerQueue :=
            dataFromPeerQueue s @ [\<lparr>str = msg_text message, buffer = Undefined\<rparr>]\<rparr>
      else if instanceof_ArrayBuffer (msg_buffer message) then
        s\<lparr>dataFromPeerQueue :=
            dataFromPeerQueue s @ [\<lparr>str = Undefined, buffer = msg_buffer message\<rparr>]\<rparr>
      else s\<lparr>logged := logged s @ [Log_error_unexpected_data message]\<rparr>)"

subsection \<open>The two lifecycle promises (lines 85-120)\<close>

text \<open>\<open>rejectOpened_\<close> is the reject function of \<open>onceOpened\<close>, and \<open>F\<close> its resolve
  function: each settles the promise only while it is pending. The reaction registered
  by \<open>onceOpened.then\<close> (lines 108-111) runs when the promise is fulfilled.\<close>

definition rejectOpened :: "error \<Rightarrow> DataChannel \<Rightarrow> DataChannel" where
  "rejectOpened e s = (if onceOpened s = Pending then s\<lparr>onceOpened := Rejected e\<rparr> else s)"

definition onceOpened_then :: "DataChannel \<Rightarrow> DataChannel" where
  "onceOpened_then s = setHandler (s\<lparr>opennedSuccessfully := Some True\<rparr>)"

definition fulfillOpened :: "DataChannel \<Rightarrow> DataChannel" where
  "fulfillOpened s =
     (if onceOpened s = Pending then onceOpened_then (s\<lparr>onceOpened := Fulfilled\<rparr>) else s)"

text \<open>The reaction registered by \<open>onceClosed.then\<close> (lines 112-120);
  \<open>!this.opennedSuccessfully_\<close> holds for \<open>undefined\<close> and for \<open>false\<close>.\<close>

definition onceClosed_then :: "DataChannel \<Rightarrow> DataChannel" where
  "onceClosed_then s =
     (let s1 = (if opennedSuccessfully s \<noteq> Some True
                then rejectOpened Error_failed_to_open s else s)
      in s1\<lparr>opennedSuccessfully := Some False\<rparr>)"

definition fulfillClosed :: "DataChannel \<Rightarrow> DataChannel" where
  "fulfillClosed s =
     (if onceClosed s = Pending then onceClosed_then (s\<lparr>onceClosed := Fulfilled\<rparr>) else s)"

text \<open>The callback of \<open>getReadyState\<close> (lines 87-99).\<close>

definition onReadyState :: "string \<Rightarrow> DataChannel \<Rightarrow> DataChannel" where
  "onReadyState state s =
     (if state = ''open'' then fulfillOpened s
      else if state = ''connecting'' then s\<lparr>onopen_listener := True\<rparr>
      else s)"

text \<open>\<open>close\<close> (lines 249-251).\<close>

definition close :: "DataChannel \<Rightarrow> DataChannel" where
  "close s =
     s\<lparr>rtcDataChannel := (rtcDataChannel s)\<lparr>closeCalls := closeCalls (rtcDataChannel s) + 1\<rparr>\<rparr>"

subsection \<open>The event loop\<close>

text \<open>
  One event each: the reply to \<open>getReadyState\<close>, which comes once; the transport's four
  events, of which \<open>onopen\<close> has a listener only after a reply \<open>connecting\<close>; the reply
  to a \<open>getBufferedAmount\<close> request, which comes only while one is outstanding; a
  timer firing, which takes the oldest timer (all have the same delay) and runs
  \<open>conjestionControlSendHandler\<close>; the application calling \<open>send\<close> or \<open>close\<close>; and
  the transport changing what its send primitive accepts.
\<close>

datatype event =
    Reply_getReadyState string
  | Event_onopen
  | Event_onclose
  | Event_onmessage Message
  | Event_onerror
  | Reply_getBufferedAmount nat
  | Timeout
  | Call_send Data
  | Call_close
  | Transport_sendThrows "rtc_call \<Rightarrow> exn option"

fun step :: "event \<Rightarrow> DataChannel \<Rightarrow> DataChannel" where
  "step (Reply_getReadyState state) s =
     (if getReadyState_pending s then onReadyState state (s\<lparr>getReadyState_pending := False\<rparr>)
      else s)"
| "step Event_onopen s = (if onopen_listener s then fulfillOpened s else s)"
| "step Event_onclose s = fulfillClosed s"
| "step (Event_onmessage message) s = onDataFromPeer message s"
| "step Event_onerror s = s\<lparr>logged := logged s @ [Log_error_onerror]\<rparr>"
| "step (Reply_getBufferedAmount bufferedAmount) s =
     (if getBufferedAmount_pending s > 0 then
        onBufferedAmount bufferedAmount
          (s\<lparr>getBufferedAmount_pending := getBufferedAmount_pending s - 1\<rparr>)
      else s)"
| "step Timeout s =
     (case timeouts s of
        [] \<Rightarrow> s
      | t # ts \<Rightarrow> conjestionControlSendHandler (s\<lparr>timeouts := ts\<rparr>))"
| "step (Call_send data) s = snd (send data s)"
| "step Call_close s = close s"
| "step (Transport_sendThrows f) s =
     s\<lparr>rtcDataChannel := (rtcDataChannel s)\<lparr>sendThrows := f\<rparr>\<rparr>"

fun run :: "event list \<Rightarrow> DataChannel \<Rightarrow> DataChannel" where
  "run [] s = s"
| "run (e # es) s = run es (step e s)"

subsection \<open>The inbound classification, in the words of the specification\<close>

text \<open>The payload an inbound message is delivered as: a text payload when its text field
  is a string, else a binary payload when its buffer field is an ArrayBuffer, else none
  (the message is dropped). It is compared with \<open>onDataFromPeer\<close> below.\<close>

definition spec_inbound_payload :: "Message \<Rightarrow> Data option" where
  "spec_inbound_payload message =
     (case msg_text message of
        JString t \<Rightarrow> Some \<lparr>str = JString t, buffer = Undefined\<rparr>
      | _ \<Rightarrow>
        (case msg_buffer message of
           JArrayBuffer b \<Rightarrow> Some \<lparr>str = Undefined, buffer = JArrayBuffer b\<rparr>
         | _ \<Rightarrow> None))"

subsection \<open>Concrete inputs\<close>

text \<open>A transport with no history whose send primitive accepts everything, and one whose
  send primitive throws a \<open>NetworkError\<close> on everything.\<close>

definition accepting_transport :: RTCDataChannel where
  "accepting_transport = \<lparr> sendCalls = [], sendThrows = (\<lambda>c. None), closeCalls = 0 \<rparr>"

definition failing_transport :: RTCDataChannel where
  "failing_transport =
     \<lparr> sendCalls = [], sendThrows = (\<lambda>c. Some ''NetworkError''), closeCalls = 0 \<rparr>"

text \<open>Two histories of a channel that opened and then closed. In the first, the text
  \<open>a\<close> is sent, the congestion controller finds 300000 bytes buffered and suspends
  consumption, the text \<open>b\<close> is sent and waits in the queue, the 20 ms timer fires and
  asks for the buffered amount again, and then the transport closes. In the second the
  transport opens and closes, and nothing else happens.\<close>

definition closed_with_chunk_waiting :: "event list" where
  "closed_with_chunk_waiting =
     [Reply_getReadyState ''open'',
      Call_send \<lparr>str = JString [97], buffer = Undefined\<rparr>,
      Reply_getBufferedAmount 300000,
      Call_send \<lparr>str = JString [98], buffer = Undefined\<rparr>,
      Timeout,
      Event_onclose]"

definition opened_then_closed :: "event list" where
  "opened_then_closed = [Reply_getReadyState ''open'', Event_onclose]"

section \<open>Properties\<close>

subsection \<open>What the drain step and the queue operations leave unchanged\<close>

lemma handleSendDataToPeer_fields:
  assumes "handleSendDataToPeer x s = (p, s')"
  shows "toPeerDataQueue s' = toPeerDataQueue s"
    and "toPeerDataQueue_handler s' = toPeerDataQueue_handler s"
    and "toPeerDataQueue_settled s' = toPeerDataQueue_settled s"
    and "timeouts s' = timeouts s"
    and "onceOpened s' = onceOpened s"
    and "onceClosed s' = onceClosed s"
    and "opennedSuccessfully s' = opennedSuccessfully s"
    and "dataFromPeerQueue s' = dataFromPeerQueue s"
    and "getReadyState_pending s' = getReadyState_pending s"
    and "onopen_listener s' = onopen_listener s"
  using assms
  by (auto simp: handleSendDataToPeer_def rtc_invoke_def catch_send_def
        conjestionControlSendHandler_def split: option.splits if_splits)

lemma processQueue_fields_conj:
  "toPeerDataQueue_handler (processQueue xs s) = toPeerDataQueue_handler s \<and>
   timeouts (processQueue xs s) = timeouts s \<and>
   onceOpened (processQueue xs s) = onceOpened s \<and>
   onceClosed (processQueue xs s) = onceClosed s \<and>
   opennedSuccessfully (processQueue xs s) = opennedSuccessfully s \<and>
   dataFromPeerQueue (processQueue xs s) = dataFromPeerQueue s \<and>
   getReadyState_pending (processQueue xs s) = getReadyState_pending s \<and>
   onopen_listener (processQueue xs s) = onopen_listener s"
proof (induction xs arbitrary: s)
  case Nil
  show ?case by simp
next
  case (Cons x xs)
  obtain p s' where h: "handleSendDataToPeer x (s\<lparr>toPeerDataQueue := xs\<rparr>) = (p, s')"
    by (cases "handleSendDataToPeer x (s\<lparr>toPeerDataQueue := xs\<rparr>)")
  note f = handleSendDataToPeer_fields [OF h]
  have eq: "processQueue (x # xs) s =
      (if toPeerDataQueue_handler s
       then processQueue xs (s'\<lparr>toPeerDataQueue_settled := toPeerDataQueue_settled s' @ [(x, p)]\<rparr>)
       else s)"
    by (simp add: h)
  show ?case
    by (simp add: eq Cons.IH f del: processQueue.simps)
qed

lemma processQueue_fields:
  "toPeerDataQueue_handler (processQueue xs s) = toPeerDataQueue_handler s"
  "timeouts (processQueue xs s) = timeouts s"
  "onceOpened (processQueue xs s) = onceOpened s"
  "onceClosed (processQueue xs s) = onceClosed s"
  "opennedSuccessfully (processQueue xs s) = opennedSuccessfully s"
  "dataFromPeerQueue (processQueue xs s) = dataFromPeerQueue s"
  "getReadyState_pending (processQueue xs s) = getReadyState_pending s"
  "onopen_listener (processQueue xs s) = onopen_listener s"
  using processQueue_fields_conj [of xs s] by simp_all

lemma handle_suspended:
  "\<not> toPeerDataQueue_handler s \<Longrightarrow>
   handle x s = (Pending, s\<lparr>toPeerDataQueue := toPeerDataQueue s @ [x]\<rparr>)"
  by (simp add: handle_def)

lemma forEach_chunk_suspended:
  "\<not> toPeerDataQueue_handler s \<Longrightarrow>
   forEach_chunk cs ps s =
     (ps @ replicate (length cs) Pending,
      s\<lparr>toPeerDataQueue := toPeerDataQueue s @
           map (\<lambda>c. \<lparr>str = Undefined, buffer = JArrayBuffer c\<rparr>) cs\<rparr>)"
proof (induction cs arbitrary: ps s)
  case Nil
  show ?case by simp
next
  case (Cons c cs)
  show ?case
    using Cons.prems
    by (simp add: handle_suspended Cons.IH replicate_app_Cons_same)
qed

lemma handle_buffer_handling:
  assumes "toPeerDataQueue_handler s"
    and "handle \<lparr>str = Undefined, buffer = JArrayBuffer c\<rparr> s = (p, s')"
  shows "toPeerDataQueue_handler s'"
    and "sendCalls (rtcDataChannel s') =
           sendCalls (rtcDataChannel s) @ [Rtc_sendBuffer (JArrayBuffer c)]"
    and "toPeerDataQueue s' = toPeerDataQueue s"
  using assms
  by (auto simp: handle_def handleSendDataToPeer_def rtc_invoke_def catch_send_def
        conjestionControlSendHandler_def split: option.splits)

lemma forEach_chunk_handling:
  "toPeerDataQueue_handler s \<Longrightarrow>
   sendCalls (rtcDataChannel (snd (forEach_chunk cs ps s))) =
     sendCalls (rtcDataChannel s) @ map (\<lambda>c. Rtc_sendBuffer (JArrayBuffer c)) cs \<and>
   toPeerDataQueue (snd (forEach_chunk cs ps s)) = toPeerDataQueue s"
proof (induction cs arbitrary: ps s)
  case Nil
  show ?case by simp
next
  case (Cons c cs)
  obtain p s' where h: "handle \<lparr>str = Undefined, buffer = JArrayBuffer c\<rparr> s = (p, s')"
    by (cases "handle \<lparr>str = Undefined, buffer = JArrayBuffer c\<rparr> s")
  note f = handle_buffer_handling [OF Cons.prems h]
  show ?case
    using Cons.IH [OF f(1), of "ps @ [p]"] by (simp add: h f)
qed

lemma handle_fields:
  assumes "handle x s = (p, s')"
  shows "toPeerDataQueue_handler s' = toPeerDataQueue_handler s"
    and "timeouts s' = timeouts s"
    and "onceOpened s' = onceOpened s"
    and "onceClosed s' = onceClosed s"
    and "opennedSuccessfully s' = opennedSuccessfully s"
proof -
  show "toPeerDataQueue_handler s' = toPeerDataQueue_handler s"
    and "timeouts s' = timeouts s"
    and "onceOpened s' = onceOpened s"
    and "onceClosed s' = onceClosed s"
    and "opennedSuccessfully s' = opennedSuccessfully s"
    using assms handleSendDataToPeer_fields [of x s p s']
    by (auto simp: handle_def split: if_splits)
qed

lemma forEach_chunk_fields:
  "toPeerDataQueue_handler (snd (forEach_chunk cs ps s)) = toPeerDataQueue_handler s \<and>
   timeouts (snd (forEach_chunk cs ps s)) = timeouts s \<and>
   onceOpened (snd (forEach_chunk cs ps s)) = onceOpened s \<and>
   onceClosed (snd (forEach_chunk cs ps s)) = onceClosed s \<and>
   opennedSuccessfully (snd (forEach_chunk cs ps s)) = opennedSuccessfully s"
proof (induction cs arbitrary: ps s)
  case Nil
  show ?case by simp
next
  case (Cons c cs)
  obtain p s' where h: "handle \<lparr>str = Undefined, buffer = JArrayBuffer c\<rparr> s = (p, s')"
    by (cases "handle \<lparr>str = Undefined, buffer = JArrayBuffer c\<rparr> s")
  show ?case
    using Cons.IH [of "ps @ [p]" s'] handle_fields [OF h] by (simp add: h)
qed

lemma send_fields:
  "toPeerDataQueue_handler (snd (send data s)) = toPeerDataQueue_handler s \<and>
   timeouts (snd (send data s)) = timeouts s \<and>
   onceOpened (snd (send data s)) = onceOpened s \<and>
   onceClosed (snd (send data s)) = onceClosed s \<and>
   opennedSuccessfully (snd (send data s)) = opennedSuccessfully s"
proof -
  obtain p s' where h: "handle \<lparr>str = str data, buffer = Undefined\<rparr> s = (p, s')"
    by (cases "handle \<lparr>str = str data, buffer = Undefined\<rparr> s")
  show ?thesis
    using handle_fields [OF h]
      forEach_chunk_fields
        [of "ArrayBuffers_chunk (case buffer data of JArrayBuffer b \<Rightarrow> b | _ \<Rightarrow> []) CHUNK_SIZE" "[]" s]
    by (simp add: send_def chunkStringOntoQueue_def chunkBufferOntoQueue_def h
          case_prod_beta)
qed

lemma send_returns_promise: "fst (send data s) \<noteq> None"
  by (cases "buffer data") (simp_all add: send_def case_prod_beta)

lemma send_suspended:
  assumes "\<not> toPeerDataQueue_handler s"
  shows "rtcDataChannel (snd (send data s)) = rtcDataChannel s \<and>
         getBufferedAmount_pending (snd (send data s)) = getBufferedAmount_pending s"
  using assms
  by (simp add: send_def chunkStringOntoQueue_def chunkBufferOntoQueue_def
        handle_suspended forEach_chunk_suspended)

subsection \<open>The lifecycle promises along a history\<close>

lemma run_append: "run (es @ es') s = run es' (run es s)"
  by (induction es arbitrary: s) simp_all

lemma fulfillOpened_fields:
  "onceOpened s = Pending \<Longrightarrow> onceOpened (fulfillOpened s) = Fulfilled"
  "onceOpened s \<noteq> Pending \<Longrightarrow> fulfillOpened s = s"
  "onceOpened s = Pending \<Longrightarrow> toPeerDataQueue_handler (fulfillOpened s)"
  "onceClosed (fulfillOpened s) = onceClosed s"
  "onceOpened s = Pending \<Longrightarrow> opennedSuccessfully (fulfillOpened s) = Some True"
  by (simp_all add: fulfillOpened_def onceOpened_then_def setHandler_def processQueue_fields)

lemma settled_onceOpened_stable:
  assumes "onceOpened s \<noteq> Pending"
  shows "onceOpened (step e s) = onceOpened s"
proof (cases e)
  case (Call_send data)
  then show ?thesis using send_fields [of data s] by simp
next
  case (Reply_getBufferedAmount n)
  then show ?thesis
    by (simp add: onBufferedAmount_def Let_def stopHandling_def isHandling_def setHandler_def
          processQueue_fields)
qed (use assms in \<open>simp_all add: fulfillOpened_fields onReadyState_def fulfillClosed_def
       onceClosed_then_def rejectOpened_def onDataFromPeer_def Let_def close_def
       conjestionControlSendHandler_def split: list.splits\<close>)

lemma fulfilled_onceClosed_stable:
  assumes "onceClosed s = Fulfilled"
  shows "onceClosed (step e s) = Fulfilled"
proof (cases e)
  case (Call_send data)
  then show ?thesis using send_fields [of data s] assms by simp
next
  case (Reply_getBufferedAmount n)
  then show ?thesis
    using assms
    by (simp add: onBufferedAmount_def Let_def stopHandling_def isHandling_def setHandler_def
          processQueue_fields)
qed (use assms in \<open>simp_all add: fulfillOpened_fields onReadyState_def fulfillClosed_def
       onceClosed_then_def rejectOpened_def onDataFromPeer_def Let_def close_def
       conjestionControlSendHandler_def split: list.splits\<close>)

lemma dormant_step:
  assumes "onceOpened (step e s) \<noteq> Fulfilled"
    and "\<not> toPeerDataQueue_handler s \<and> getBufferedAmount_pending s = 0 \<and> timeouts s = []"
  shows "\<not> toPeerDataQueue_handler (step e s) \<and> getBufferedAmount_pending (step e s) = 0 \<and>
         timeouts (step e s) = [] \<and>
         sendCalls (rtcDataChannel (step e s)) = sendCalls (rtcDataChannel s)"
proof (cases e)
  case (Call_send data)
  then show ?thesis using send_fields [of data s] send_suspended [of s data] assms(2) by simp
next
  case (Reply_getReadyState st)
  then show ?thesis
    using assms fulfillOpened_fields(1,2) [of "s\<lparr>getReadyState_pending := False\<rparr>"]
    by (cases "onceOpened s = Pending") (auto simp: onReadyState_def)
next
  case Event_onopen
  then show ?thesis
    using assms fulfillOpened_fields(1,2) [of s]
    by (cases "onceOpened s = Pending") auto
qed (use assms in \<open>simp_all add: fulfillClosed_def
       onceClosed_then_def rejectOpened_def onDataFromPeer_def Let_def close_def\<close>)

lemma pending_step:
  assumes "onceOpened (step e s) = Pending"
    and "opennedSuccessfully s \<noteq> Some True \<and> onceClosed s = Pending"
  shows "opennedSuccessfully (step e s) \<noteq> Some True \<and> onceClosed (step e s) = Pending"
proof (cases e)
  case (Call_send data)
  then show ?thesis using send_fields [of data s] assms(2) by simp
next
  case (Reply_getReadyState st)
  then show ?thesis
    using assms fulfillOpened_fields(1,2) [of "s\<lparr>getReadyState_pending := False\<rparr>"]
    by (cases "onceOpened s = Pending") (auto simp: onReadyState_def)
next
  case Event_onopen
  then show ?thesis
    using assms fulfillOpened_fields(1,2) [of s]
    by (cases "onceOpened s = Pending") auto
next
  case (Reply_getBufferedAmount n)
  then show ?thesis
    using assms
    by (simp add: onBufferedAmount_def Let_def stopHandling_def isHandling_def setHandler_def
          processQueue_fields)
next
  case Event_onclose
  then show ?thesis
    using assms
    by (auto simp: fulfillClosed_def onceClosed_then_def rejectOpened_def Let_def
          split: if_splits)
qed (use assms in \<open>simp_all add: onDataFromPeer_def close_def
       conjestionControlSendHandler_def split: list.splits\<close>)

lemma settled_onceOpened_run:
  "onceOpened s \<noteq> Pending \<Longrightarrow> onceOpened (run es s) = onceOpened s"
proof (induction es arbitrary: s)
  case Nil
  show ?case by simp
next
  case (Cons e es)
  have "onceOpened (step e s) = onceOpened s"
    using Cons.prems by (rule settled_onceOpened_stable)
  with Cons show ?case by simp
qed

lemma fulfilled_onceClosed_run:
  "onceClosed s = Fulfilled \<Longrightarrow> onceClosed (run es s) = Fulfilled"
  by (induction es arbitrary: s) (simp_all add: fulfilled_onceClosed_stable)

lemma dormant_run:
  assumes "onceOpened (run es s) \<noteq> Fulfilled"
    and "\<not> toPeerDataQueue_handler s \<and> getBufferedAmount_pending s = 0 \<and> timeouts s = []"
  shows "\<not> toPeerDataQueue_handler (run es s) \<and>
         sendCalls (rtcDataChannel (run es s)) = sendCalls (rtcDataChannel s)"
  using assms
proof (induction es arbitrary: s)
  case Nil
  then show ?case by simp
next
  case (Cons e es)
  have nf: "onceOpened (step e s) \<noteq> Fulfilled"
  proof
    assume f: "onceOpened (step e s) = Fulfilled"
    then have "onceOpened (run es (step e s)) = Fulfilled"
      using settled_onceOpened_run [of "step e s" es] by simp
    with Cons.prems(1) show False by simp
  qed
  note d = dormant_step [OF nf Cons.prems(2)]
  have "\<not> toPeerDataQueue_handler (run es (step e s)) \<and>
        sendCalls (rtcDataChannel (run es (step e s))) = sendCalls (rtcDataChannel (step e s))"
    using Cons.prems(1) d by (intro Cons.IH) simp_all
  with d show ?case by simp
qed

lemma pending_run:
  assumes "onceOpened (run es s) = Pending"
    and "opennedSuccessfully s \<noteq> Some True \<and> onceClosed s = Pending"
  shows "opennedSuccessfully (run es s) \<noteq> Some True \<and> onceClosed (run es s) = Pending"
  using assms
proof (induction es arbitrary: s)
  case Nil
  then show ?case by simp
next
  case (Cons e es)
  have p: "onceOpened (step e s) = Pending"
  proof (rule ccontr)
    assume n: "onceOpened (step e s) \<noteq> Pending"
    then have "onceOpened (run es (step e s)) = onceOpened (step e s)"
      by (rule settled_onceOpened_run)
    with Cons.prems(1) n show False by simp
  qed
  note k = pending_step [OF p Cons.prems(2)]
  show ?case
    using Cons.prems(1) k Cons.IH [of "step e s"] by simp
qed

subsection \<open>The chunker\<close>

lemma ceil_div_step:
  assumes "0 < n" "0 < a"
  shows "(a + n - 1) div n = Suc ((a - n + n - 1) div (n::nat))"
proof -
  obtain a' where a': "a = Suc a'" using assms(2) by (cases a) simp_all
  have "(a + n - 1) div n = (a' + n) div n" by (simp add: a')
  also have "\<dots> = Suc (a' div n)" using assms(1) by simp
  finally have l: "(a + n - 1) div n = Suc ((a - 1) div n)" by (simp add: a')
  show ?thesis
  proof (cases "a \<le> n")
    case True
    then have "(a - 1) div n = 0" "(a - n + n - 1) div n = 0" using assms by simp_all
    with l show ?thesis by simp
  next
    case False
    then have "a - n + n - 1 = a - 1" by simp
    with l show ?thesis by simp
  qed
qed

lemma ceiling_nat_div:
  assumes "0 < n"
  shows "\<lceil>real a / real n\<rceil> = int ((a + n - 1) div n)"
proof -
  define k where "k = (a + n - 1) div n"
  have 1: "k * n \<le> a + n - 1" by (simp add: k_def)
  have 2: "a + n - 1 < n + k * n"
    unfolding k_def using assms by (rule dividend_less_div_times)
  from 2 assms have "a \<le> k * n" by simp
  then have u: "real a \<le> real k * real n"
    by (metis of_nat_le_iff of_nat_mult)
  from 1 assms have "k * n < a + n" by simp
  then have l: "real k * real n < real a + real n"
    by (metis of_nat_less_iff of_nat_mult of_nat_add)
  have rn: "0 < real n" using assms by simp
  have "real a / real n \<le> real k"
    using u rn by (simp add: pos_divide_le_eq)
  moreover have "real k - 1 < real a / real n"
  proof -
    have "(real k - 1) * real n < real a" using l by (simp add: algebra_simps)
    then show ?thesis using rn by (simp add: pos_less_divide_eq)
  qed
  ultimately have "\<lceil>real a / real n\<rceil> = int k"
    by (intro ceiling_unique) simp_all
  then show ?thesis by (simp add: k_def)
qed

lemma chunk_concat: "0 < n \<Longrightarrow> concat (ArrayBuffers_chunk b n) = b"
proof (induction b n rule: ArrayBuffers_chunk.induct)
  case (1 b sz)
  show ?case
  proof (cases "b = []")
    case True
    then show ?thesis by (simp add: ArrayBuffers_chunk.simps)
  next
    case False
    with 1 show ?thesis
      by (subst ArrayBuffers_chunk.simps) simp
  qed
qed

lemma chunk_le: "c \<in> set (ArrayBuffers_chunk b n) \<Longrightarrow> length c \<le> n"
proof (induction b n rule: ArrayBuffers_chunk.induct)
  case (1 b sz)
  show ?case
  proof (cases "b = [] \<or> sz = 0")
    case True
    with 1(2) show ?thesis by (simp add: ArrayBuffers_chunk.simps)
  next
    case False
    from 1(2) False have "c = take sz b \<or> c \<in> set (ArrayBuffers_chunk (drop sz b) sz)"
      by (subst (asm) ArrayBuffers_chunk.simps) simp
    with 1(1) False show ?thesis by auto
  qed
qed

lemma chunk_length: "0 < n \<Longrightarrow> length (ArrayBuffers_chunk b n) = (length b + n - 1) div n"
proof (induction b n rule: ArrayBuffers_chunk.induct)
  case (1 b sz)
  show ?case
  proof (cases "b = []")
    case True
    with 1(2) show ?thesis by (simp add: ArrayBuffers_chunk.simps)
  next
    case False
    with 1 have ih: "length (ArrayBuffers_chunk (drop sz b) sz) = (length b - sz + sz - 1) div sz"
      by simp
    have "length (ArrayBuffers_chunk b sz) = Suc ((length b - sz + sz - 1) div sz)"
      using False 1(2) ih by (subst ArrayBuffers_chunk.simps) simp
    also have "\<dots> = (length b + sz - 1) div sz"
      using ceil_div_step [of sz "length b"] False 1(2) by simp
    finally show ?thesis .
  qed
qed

subsection \<open>Evaluation of concrete histories\<close>

lemmas channel_defs =
  DataChannel_new_def accepting_transport_def failing_transport_def
  onReadyState_def fulfillOpened_def onceOpened_then_def fulfillClosed_def onceClosed_then_def
  rejectOpened_def setHandler_def stopHandling_def isHandling_def onBufferedAmount_def
  send_def send_byteLength_def exceeds_MAX_MESSAGE_SIZE_def chunkStringOntoQueue_def
  chunkBufferOntoQueue_def handle_def handleSendDataToPeer_def rtc_invoke_def catch_send_def
  conjestionControlSendHandler_def onDataFromPeer_def close_def
  CHUNK_SIZE_def PC_QUEUE_LIMIT_def MAX_MESSAGE_SIZE_def

section \<open>The claims\<close>

subsection \<open>Chunking of binary payloads\<close>

text \<open>
  Claim C1. For a binary payload (\<open>data.str\<close> is not a string, \<open>data.buffer\<close> is an
  ArrayBuffer of \<open>L\<close> bytes; \<open>L \<le> MAX_MESSAGE_SIZE\<close>, as the byte length of an
  ArrayBuffer always is), \<open>send\<close> splits the buffer into exactly
  \<open>\<lceil>L / CHUNK_SIZE\<rceil>\<close> chunks, each of at most \<open>CHUNK_SIZE\<close> bytes, whose
  concatenation is the buffer; it hands the chunks to the outbound queue in that order:
  while the queue has no handler they are appended to the waiting entries, and while it has
  one they go, in that order, to the transport's \<open>sendBuffer\<close>.
\<close>

theorem send_chunks_binary_payload:
  assumes "typeof st \<noteq> ''string''" and "length b \<le> MAX_MESSAGE_SIZE"
  shows "int (length (ArrayBuffers_chunk b CHUNK_SIZE)) = \<lceil>real (length b) / real CHUNK_SIZE\<rceil> \<and>
         list_all (\<lambda>c. length c \<le> CHUNK_SIZE) (ArrayBuffers_chunk b CHUNK_SIZE) \<and>
         concat (ArrayBuffers_chunk b CHUNK_SIZE) = b \<and>
         (if isHandling s
          then toPeerDataQueue (snd (send \<lparr>str = st, buffer = JArrayBuffer b\<rparr> s)) =
                 toPeerDataQueue s \<and>
               sendCalls (rtcDataChannel (snd (send \<lparr>str = st, buffer = JArrayBuffer b\<rparr> s))) =
                 sendCalls (rtcDataChannel s) @
                 map (\<lambda>c. Rtc_sendBuffer (JArrayBuffer c)) (ArrayBuffers_chunk b CHUNK_SIZE)
          else snd (send \<lparr>str = st, buffer = JArrayBuffer b\<rparr> s) =
                 s\<lparr>toPeerDataQueue := toPeerDataQueue s @
                      map (\<lambda>c. \<lparr>str = Undefined, buffer = JArrayBuffer c\<rparr>)
                        (ArrayBuffers_chunk b CHUNK_SIZE)\<rparr>)"
proof -
  have pos: "0 < CHUNK_SIZE" by (simp add: CHUNK_SIZE_def)
  have snd_send: "snd (send \<lparr>str = st, buffer = JArrayBuffer b\<rparr> s) =
      snd (forEach_chunk (ArrayBuffers_chunk b CHUNK_SIZE) [] s)"
    using assms
    by (simp add: send_def send_byteLength_def exceeds_MAX_MESSAGE_SIZE_def
          chunkBufferOntoQueue_def split: prod.splits)
  have 1: "int (length (ArrayBuffers_chunk b CHUNK_SIZE)) = \<lceil>real (length b) / real CHUNK_SIZE\<rceil>"
    by (simp only: chunk_length [OF pos] ceiling_nat_div [OF pos])
  have 2: "list_all (\<lambda>c. length c \<le> CHUNK_SIZE) (ArrayBuffers_chunk b CHUNK_SIZE)"
    by (simp add: list_all_iff chunk_le)
  have 3: "concat (ArrayBuffers_chunk b CHUNK_SIZE) = b"
    by (rule chunk_concat [OF pos])
  show ?thesis
  proof (cases "isHandling s")
    case True
    then have h: "toPeerDataQueue_handler s" by (simp add: isHandling_def)
    show ?thesis
      using True 1 2 3 forEach_chunk_handling [OF h, of "ArrayBuffers_chunk b CHUNK_SIZE" "[]"]
      by (simp add: snd_send)
  next
    case False
    then have h: "\<not> toPeerDataQueue_handler s" by (simp add: isHandling_def)
    show ?thesis
      using False 1 2 3
      by (simp add: snd_send forEach_chunk_suspended [OF h])
  qed
qed

theorem send_chunks_binary_payload_witness:
  "typeof Undefined \<noteq> ''string'' \<and>
   length (replicate 40000 (0 :: 8 word)) \<le> MAX_MESSAGE_SIZE \<and>
   \<lceil>real (length (replicate 40000 (0 :: 8 word))) / real CHUNK_SIZE\<rceil> = 3 \<and>
   toPeerDataQueue (snd (send \<lparr>str = Undefined, buffer = JArrayBuffer (replicate 40000 0)\<rparr>
       (DataChannel_new accepting_transport))) =
     [\<lparr>str = Undefined, buffer = JArrayBuffer (replicate 15360 0)\<rparr>,
      \<lparr>str = Undefined, buffer = JArrayBuffer (replicate 15360 0)\<rparr>,
      \<lparr>str = Undefined, buffer = JArrayBuffer (replicate 9280 0)\<rparr>] \<and>
   isHandling (run [Reply_getReadyState ''open''] (DataChannel_new accepting_transport)) \<and>
   sendCalls (rtcDataChannel
       (snd (send \<lparr>str = Undefined, buffer = JArrayBuffer (replicate 40000 0)\<rparr>
          (run [Reply_getReadyState ''open''] (DataChannel_new accepting_transport))))) =
     [Rtc_sendBuffer (JArrayBuffer (replicate 15360 0)),
      Rtc_sendBuffer (JArrayBuffer (replicate 15360 0)),
      Rtc_sendBuffer (JArrayBuffer (replicate 9280 0))]"
proof -
  have ch: "ArrayBuffers_chunk (replicate 40000 (0 :: 8 word)) CHUNK_SIZE =
      [replicate 15360 0, replicate 15360 0, replicate 9280 0]"
    by (simp add: ArrayBuffers_chunk.simps CHUNK_SIZE_def)
  have a: "typeof Undefined \<noteq> ''string''" by simp
  have b: "length (replicate 40000 (0 :: 8 word)) \<le> MAX_MESSAGE_SIZE"
    by (simp add: MAX_MESSAGE_SIZE_def)
  have n: "\<not> isHandling (DataChannel_new accepting_transport)"
    by (simp add: isHandling_def DataChannel_new_def)
  have h: "isHandling (run [Reply_getReadyState ''open''] (DataChannel_new accepting_transport))"
    by (simp add: channel_defs)
  have c: "sendCalls (rtcDataChannel
      (run [Reply_getReadyState ''open''] (DataChannel_new accepting_transport))) = []"
    by (simp add: channel_defs)
  have q: "toPeerDataQueue (DataChannel_new accepting_transport) = []"
    by (simp add: DataChannel_new_def)
  show ?thesis
    using send_chunks_binary_payload [OF a b, of "DataChannel_new accepting_transport"]
      send_chunks_binary_payload [OF a b,
        of "run [Reply_getReadyState ''open''] (DataChannel_new accepting_transport)"]
      a b n h c q
    by (simp add: ch del: run.simps)
qed

subsection \<open>The congestion controller\<close>

text \<open>
  Claim C2. Whenever the reply to a buffered-amount request arrives: if
  \<open>bufferedAmount + CHUNK_SIZE > PC_QUEUE_LIMIT\<close>, then after the step the outbound queue
  has no handler (consumption is suspended) and one more timer of 20 ms is set; if
  \<open>bufferedAmount + CHUNK_SIZE \<le> PC_QUEUE_LIMIT\<close>, then after the same step the queue
  has its handler (consumption is resumed at once, so within the polling interval) and no
  timer is added. A timer that fires is taken off and asks for the buffered amount again,
  which is the retry poll.
\<close>

theorem congestion_sample_suspends_or_resumes:
  assumes "0 < getBufferedAmount_pending s"
  shows "(bufferedAmount + CHUNK_SIZE > PC_QUEUE_LIMIT \<longrightarrow>
           \<not> isHandling (step (Reply_getBufferedAmount bufferedAmount) s) \<and>
           timeouts (step (Reply_getBufferedAmount bufferedAmount) s) = timeouts s @ [20]) \<and>
         (bufferedAmount + CHUNK_SIZE \<le> PC_QUEUE_LIMIT \<longrightarrow>
           isHandling (step (Reply_getBufferedAmount bufferedAmount) s) \<and>
           timeouts (step (Reply_getBufferedAmount bufferedAmount) s) = timeouts s) \<and>
         (timeouts s' \<noteq> [] \<longrightarrow>
           getBufferedAmount_pending (step Timeout s') = getBufferedAmount_pending s' + 1 \<and>
           timeouts (step Timeout s') = tl (timeouts s'))"
proof -
  have "timeouts s' \<noteq> [] \<longrightarrow>
      getBufferedAmount_pending (step Timeout s') = getBufferedAmount_pending s' + 1 \<and>
      timeouts (step Timeout s') = tl (timeouts s')"
    by (cases "timeouts s'") (simp_all add: conjestionControlSendHandler_def)
  then show ?thesis
    using assms
    by (simp add: onBufferedAmount_def isHandling_def stopHandling_def setHandler_def Let_def
          processQueue_fields)
qed

theorem congestion_sample_suspends_or_resumes_witness:
  "0 < getBufferedAmount_pending
         (run [Reply_getReadyState ''open'', Call_send \<lparr>str = JString [97], buffer = Undefined\<rparr>]
          (DataChannel_new accepting_transport)) \<and>
   250000 + CHUNK_SIZE > PC_QUEUE_LIMIT \<and>
   \<not> isHandling (run [Reply_getReadyState ''open'',
                      Call_send \<lparr>str = JString [97], buffer = Undefined\<rparr>,
                      Reply_getBufferedAmount 250000]
          (DataChannel_new accepting_transport)) \<and>
   timeouts (run [Reply_getReadyState ''open'',
                      Call_send \<lparr>str = JString [97], buffer = Undefined\<rparr>,
                      Reply_getBufferedAmount 250000]
          (DataChannel_new accepting_transport)) = [20] \<and>
   getBufferedAmount_pending (run [Reply_getReadyState ''open'',
                      Call_send \<lparr>str = JString [97], buffer = Undefined\<rparr>,
                      Reply_getBufferedAmount 250000, Timeout]
          (DataChannel_new accepting_transport)) = 1 \<and>
   1000 + CHUNK_SIZE \<le> PC_QUEUE_LIMIT \<and>
   isHandling (run [Reply_getReadyState ''open'',
                      Call_send \<lparr>str = JString [97], buffer = Undefined\<rparr>,
                      Reply_getBufferedAmount 1000]
          (DataChannel_new accepting_transport))"
proof -
  let ?s = "run [Reply_getReadyState ''open'', Call_send \<lparr>str = JString [97], buffer = Undefined\<rparr>]
          (DataChannel_new accepting_transport)"
  let ?s' = "step (Reply_getBufferedAmount 250000) ?s"
  have p: "0 < getBufferedAmount_pending ?s"
    by (simp add: channel_defs)
  have t: "timeouts ?s = []"
    by (simp add: channel_defs)
  have q: "getBufferedAmount_pending ?s' = 0"
    by (simp add: channel_defs)
  have r: "run [a, b, c] s = step c (run [a, b] s)"
    "run [a, b, c, d] s = step d (step c (run [a, b] s))" for a b c d s
    by simp_all
  have h: "250000 + CHUNK_SIZE > PC_QUEUE_LIMIT" "1000 + CHUNK_SIZE \<le> PC_QUEUE_LIMIT"
    by (simp_all add: CHUNK_SIZE_def PC_QUEUE_LIMIT_def)
  show ?thesis
    using p t q h
      congestion_sample_suspends_or_resumes [OF p, of 250000 ?s']
      congestion_sample_suspends_or_resumes [OF p, of 1000 ?s']
    by (simp only: r) simp
qed

subsection \<open>Consumption after the channel has closed\<close>

text \<open>
  Claim C3, amended. Once \<open>onceOpened\<close> is rejected (the transport closed before the
  channel opened), whatever happens afterwards the outbound queue has no handler and the
  transport's send primitive has never been called: consumption is never activated. The
  close event itself leaves the queue's handler as it is, also after the channel had
  opened: nothing in the class removes the handler when the channel closes.
\<close>

theorem no_consumption_after_failed_open:
  assumes "onceOpened (run es (DataChannel_new rtc)) = Rejected err"
  shows "\<not> isHandling (run (es @ es') (DataChannel_new rtc)) \<and>
         sendCalls (rtcDataChannel (run (es @ es') (DataChannel_new rtc))) = sendCalls rtc \<and>
         isHandling (step Event_onclose s) = isHandling s"
proof -
  have "onceOpened (run (es @ es') (DataChannel_new rtc)) = Rejected err"
    using assms settled_onceOpened_run [of "run es (DataChannel_new rtc)" es']
    by (simp add: run_append)
  then have "onceOpened (run (es @ es') (DataChannel_new rtc)) \<noteq> Fulfilled" by simp
  then have "\<not> isHandling (run (es @ es') (DataChannel_new rtc)) \<and>
      sendCalls (rtcDataChannel (run (es @ es') (DataChannel_new rtc))) = sendCalls rtc"
    using dormant_run [of "es @ es'" "DataChannel_new rtc"]
    by (simp add: isHandling_def) (simp add: DataChannel_new_def)
  moreover have "isHandling (step Event_onclose s) = isHandling s"
    by (simp add: isHandling_def fulfillClosed_def onceClosed_then_def rejectOpened_def)
  ultimately show ?thesis by simp
qed

theorem no_consumption_after_failed_open_witness:
  "onceOpened (run [Reply_getReadyState ''connecting'',
                    Call_send \<lparr>str = JString [104, 105], buffer = Undefined\<rparr>,
                    Event_onclose]
                 (DataChannel_new accepting_transport)) = Rejected Error_failed_to_open \<and>
   \<not> isHandling (run [Reply_getReadyState ''connecting'',
                    Call_send \<lparr>str = JString [104, 105], buffer = Undefined\<rparr>,
                    Event_onclose,
                    Event_onopen, Call_send \<lparr>str = Undefined, buffer = JArrayBuffer [1, 2]\<rparr>,
                    Timeout, Reply_getBufferedAmount 0]
                 (DataChannel_new accepting_transport)) \<and>
   sendCalls (rtcDataChannel (run [Reply_getReadyState ''connecting'',
                    Call_send \<lparr>str = JString [104, 105], buffer = Undefined\<rparr>,
                    Event_onclose,
                    Event_onopen, Call_send \<lparr>str = Undefined, buffer = JArrayBuffer [1, 2]\<rparr>,
                    Timeout, Reply_getBufferedAmount 0]
                 (DataChannel_new accepting_transport))) = []"
proof -
  have a: "onceOpened (run [Reply_getReadyState ''connecting'',
                    Call_send \<lparr>str = JString [104, 105], buffer = Undefined\<rparr>,
                    Event_onclose]
                 (DataChannel_new accepting_transport)) = Rejected Error_failed_to_open"
    by (simp add: channel_defs)
  show ?thesis
    using a no_consumption_after_failed_open [OF a, of "[Event_onopen,
        Call_send \<lparr>str = Undefined, buffer = JArrayBuffer [1, 2]\<rparr>,
        Timeout, Reply_getBufferedAmount 0]"]
    by (simp add: accepting_transport_def)
qed

text \<open>
  Claim C3 as it is stated fails after Open then Closed. In the first history the channel
  is closed, the handler is off and the text \<open>b\<close> waits in the queue; the reply to the
  buffered-amount request that was out when the transport closed then installs the handler
  again, and the waiting text is handed to the transport's \<open>send\<close>. In the second
  history the handler is still set after the close, and a text sent then goes straight to
  the transport's \<open>send\<close>. The call is made whether or not the primitive then throws.
\<close>

theorem consumption_resumes_after_close:
  "onceOpened (run closed_with_chunk_waiting (DataChannel_new accepting_transport)) = Fulfilled \<and>
   onceClosed (run closed_with_chunk_waiting (DataChannel_new accepting_transport)) = Fulfilled \<and>
   \<not> isHandling (run closed_with_chunk_waiting (DataChannel_new accepting_transport)) \<and>
   toPeerDataQueue (run closed_with_chunk_waiting (DataChannel_new accepting_transport)) =
     [\<lparr>str = JString [98], buffer = Undefined\<rparr>] \<and>
   sendCalls (rtcDataChannel
       (run closed_with_chunk_waiting (DataChannel_new accepting_transport))) =
     [Rtc_send (JString [97])] \<and>
   isHandling (run (closed_with_chunk_waiting @ [Reply_getBufferedAmount 0])
       (DataChannel_new accepting_transport)) \<and>
   toPeerDataQueue (run (closed_with_chunk_waiting @ [Reply_getBufferedAmount 0])
       (DataChannel_new accepting_transport)) = [] \<and>
   sendCalls (rtcDataChannel (run (closed_with_chunk_waiting @ [Reply_getBufferedAmount 0])
       (DataChannel_new accepting_transport))) =
     [Rtc_send (JString [97]), Rtc_send (JString [98])] \<and>
   onceClosed (run opened_then_closed (DataChannel_new accepting_transport)) = Fulfilled \<and>
   isHandling (run opened_then_closed (DataChannel_new accepting_transport)) \<and>
   sendCalls (rtcDataChannel (run opened_then_closed (DataChannel_new accepting_transport))) = [] \<and>
   sendCalls (rtcDataChannel
       (run (opened_then_closed @ [Call_send \<lparr>str = JString [99], buffer = Undefined\<rparr>])
          (DataChannel_new accepting_transport))) = [Rtc_send (JString [99])]"
  by (simp add: closed_with_chunk_waiting_def opened_then_closed_def channel_defs)

subsection \<open>Closing before opening\<close>

text \<open>
  Claim C4. If the transport's close event arrives while \<open>onceOpened\<close> is still
  pending (the channel never opened), then from that event on, whatever happens next,
  \<open>onceOpened\<close> is rejected (with the error of line 116) and \<open>onceClosed\<close> is
  fulfilled.
\<close>

theorem close_while_connecting_rejects_onceOpened:
  assumes "onceOpened (run es (DataChannel_new rtc)) = Pending"
  shows "onceOpened (run (es @ Event_onclose # es') (DataChannel_new rtc)) =
           Rejected Error_failed_to_open \<and>
         onceClosed (run (es @ Event_onclose # es') (DataChannel_new rtc)) = Fulfilled"
proof -
  let ?s = "run es (DataChannel_new rtc)"
  have k: "opennedSuccessfully ?s \<noteq> Some True \<and> onceClosed ?s = Pending"
    using assms by (rule pending_run) (simp add: DataChannel_new_def)
  have o: "onceOpened (step Event_onclose ?s) = Rejected Error_failed_to_open"
    using assms k by (simp add: fulfillClosed_def onceClosed_then_def rejectOpened_def)
  have c: "onceClosed (step Event_onclose ?s) = Fulfilled"
    using assms k by (simp add: fulfillClosed_def onceClosed_then_def rejectOpened_def)
  have "onceOpened (run es' (step Event_onclose ?s)) = Rejected Error_failed_to_open"
    using o settled_onceOpened_run [of "step Event_onclose ?s" es'] by simp
  moreover have "onceClosed (run es' (step Event_onclose ?s)) = Fulfilled"
    using c by (rule fulfilled_onceClosed_run)
  ultimately show ?thesis by (simp add: run_append)
qed

theorem close_while_connecting_rejects_onceOpened_witness:
  "onceOpened (run [Reply_getReadyState ''connecting'',
                    Call_send \<lparr>str = JString [104, 105], buffer = Undefined\<rparr>]
                 (DataChannel_new accepting_transport)) = Pending \<and>
   onceOpened (run [Reply_getReadyState ''connecting'',
                    Call_send \<lparr>str = JString [104, 105], buffer = Undefined\<rparr>,
                    Event_onclose, Event_onopen, Event_onclose]
                 (DataChannel_new accepting_transport)) = Rejected Error_failed_to_open \<and>
   onceClosed (run [Reply_getReadyState ''connecting'',
                    Call_send \<lparr>str = JString [104, 105], buffer = Undefined\<rparr>,
                    Event_onclose, Event_onopen, Event_onclose]
                 (DataChannel_new accepting_transport)) = Fulfilled"
proof -
  have a: "onceOpened (run [Reply_getReadyState ''connecting'',
                    Call_send \<lparr>str = JString [104, 105], buffer = Undefined\<rparr>]
                 (DataChannel_new accepting_transport)) = Pending"
    by (simp add: channel_defs)
  show ?thesis
    using a close_while_connecting_rejects_onceOpened [OF a, of "[Event_onopen, Event_onclose]"] by simp
qed

subsection \<open>Rejected sends\<close>

text \<open>
  Claim C5. \<open>send\<close> returns a rejected promise and leaves the whole state, so also the
  outbound queue, as it was: when \<open>data.str\<close> is not a string and \<open>data.buffer\<close> is
  not an ArrayBuffer; when \<open>data.str\<close> is a string of more than
  \<open>MAX_MESSAGE_SIZE / 2\<close> code units; and when \<open>data.str\<close> is not a string and
  \<open>data.buffer\<close> is an ArrayBuffer of more than \<open>MAX_MESSAGE_SIZE\<close> bytes.
\<close>

theorem send_rejects_without_enqueueing:
  "(typeof (str data) \<noteq> ''string'' \<and> \<not> instanceof_ArrayBuffer (buffer data) \<longrightarrow>
      send data s = (Some (Rejected (Error_must_have_str_or_buffer (typeof (str data))
                     (typeof (buffer data)) False)), s)) \<and>
   (str data = JString t \<and> length t * 2 > MAX_MESSAGE_SIZE \<longrightarrow>
      send data s = (Some (Rejected Error_too_big), s)) \<and>
   (typeof (str data) \<noteq> ''string'' \<and> buffer data = JArrayBuffer b \<and>
      length b > MAX_MESSAGE_SIZE \<longrightarrow>
      send data s = (Some (Rejected Error_too_big), s))"
  by (simp add: send_def send_byteLength_def exceeds_MAX_MESSAGE_SIZE_def)

theorem send_rejects_without_enqueueing_witness:
  "send \<lparr>str = Undefined, buffer = JObject 0\<rparr> (DataChannel_new accepting_transport) =
     (Some (Rejected (Error_must_have_str_or_buffer ''undefined'' ''object'' False)),
      DataChannel_new accepting_transport) \<and>
   length (replicate (2 ^ 52 + 1) (0 :: 16 word)) * 2 > MAX_MESSAGE_SIZE \<and>
   send \<lparr>str = JString (replicate (2 ^ 52 + 1) 0), buffer = Undefined\<rparr>
        (DataChannel_new accepting_transport) =
     (Some (Rejected Error_too_big), DataChannel_new accepting_transport) \<and>
   length (replicate (2 ^ 53 + 1) (0 :: 8 word)) > MAX_MESSAGE_SIZE \<and>
   send \<lparr>str = Undefined, buffer = JArrayBuffer (replicate (2 ^ 53 + 1) 0)\<rparr>
        (DataChannel_new accepting_transport) =
     (Some (Rejected Error_too_big), DataChannel_new accepting_transport)"
  using send_rejects_without_enqueueing
          [where data = "\<lparr>str = Undefined, buffer = JObject 0\<rparr>"
             and s = "DataChannel_new accepting_transport"]
        send_rejects_without_enqueueing
          [where data = "\<lparr>str = JString (replicate (2 ^ 52 + 1) 0), buffer = Undefined\<rparr>"
             and t = "replicate (2 ^ 52 + 1) 0" and s = "DataChannel_new accepting_transport"]
        send_rejects_without_enqueueing
          [where data = "\<lparr>str = Undefined, buffer = JArrayBuffer (replicate (2 ^ 53 + 1) 0)\<rparr>"
             and b = "replicate (2 ^ 53 + 1) 0" and s = "DataChannel_new accepting_transport"]
  by (simp add: MAX_MESSAGE_SIZE_def)

subsection \<open>Activation of the outbound queue\<close>

text \<open>
  Claim C6. A new DataChannel has no handler on its outbound queue; in every state the
  channel reaches in which \<open>onceOpened\<close> is not fulfilled the queue still has none; and
  the step that fulfils \<open>onceOpened\<close> installs it.
\<close>

theorem consumption_starts_with_onceOpened:
  "\<not> isHandling (DataChannel_new rtc) \<and>
   (onceOpened (run es (DataChannel_new rtc)) \<noteq> Fulfilled \<longrightarrow>
      \<not> isHandling (run es (DataChannel_new rtc))) \<and>
   (onceOpened s = Pending \<longrightarrow>
      onceOpened (fulfillOpened s) = Fulfilled \<and> isHandling (fulfillOpened s))"
  using dormant_run [of es "DataChannel_new rtc"]
  by (simp add: isHandling_def fulfillOpened_fields) (simp add: DataChannel_new_def)

theorem consumption_starts_with_onceOpened_witness:
  "onceOpened (run [Call_send \<lparr>str = JString [104, 105], buffer = Undefined\<rparr>,
                    Reply_getReadyState ''connecting'']
                 (DataChannel_new accepting_transport)) \<noteq> Fulfilled \<and>
   \<not> isHandling (run [Call_send \<lparr>str = JString [104, 105], buffer = Undefined\<rparr>,
                    Reply_getReadyState ''connecting'']
                 (DataChannel_new accepting_transport)) \<and>
   onceOpened (DataChannel_new accepting_transport) = Pending \<and>
   isHandling (fulfillOpened (DataChannel_new accepting_transport))"
proof -
  have a: "onceOpened (run [Call_send \<lparr>str = JString [104, 105], buffer = Undefined\<rparr>,
                    Reply_getReadyState ''connecting'']
                 (DataChannel_new accepting_transport)) \<noteq> Fulfilled"
    by (simp add: channel_defs)
  have b: "onceOpened (DataChannel_new accepting_transport) = Pending"
    by (simp add: DataChannel_new_def)
  show ?thesis
    using a b
      consumption_starts_with_onceOpened [of accepting_transport
             "[Call_send \<lparr>str = JString [104, 105], buffer = Undefined\<rparr>,
               Reply_getReadyState ''connecting'']" "DataChannel_new accepting_transport"]
    by simp
qed

subsection \<open>A send primitive that throws\<close>

text \<open>
  Claim C7. When the transport's send primitive throws \<open>e\<close> on the chunk of a drain
  step, \<open>handleSendDataToPeer_\<close> returns normally, with a promise rejected by the
  delivery error made from \<open>e\<close>; the state changes only by the recorded call and one log
  line. While a handler is set, that promise is what \<open>handle\<close> returns for the chunk,
  and for a waiting chunk the queue settles the chunk's future with it and goes on with
  the chunks behind it.
\<close>

theorem send_primitive_throw_rejects_chunk:
  assumes "sendThrows (rtcDataChannel s) c = Some e"
    and "(typeof (str x) = ''string'' \<and> c = Rtc_send (str x)) \<or>
         (typeof (str x) \<noteq> ''string'' \<and> truthy (buffer x) \<and> c = Rtc_sendBuffer (buffer x))"
  shows "handleSendDataToPeer x s =
           (Rejected (Error_in_send e),
            s\<lparr>rtcDataChannel :=
                 (rtcDataChannel s)\<lparr>sendCalls := sendCalls (rtcDataChannel s) @ [c]\<rparr>,
              logged := logged s @ [Log_debug_error_in_send e]\<rparr>) \<and>
         (isHandling s \<longrightarrow>
            handle x s = handleSendDataToPeer x s \<and>
            processQueue (x # xs) s =
              processQueue xs
                (s\<lparr>toPeerDataQueue := xs,
                   rtcDataChannel :=
                     (rtcDataChannel s)\<lparr>sendCalls := sendCalls (rtcDataChannel s) @ [c]\<rparr>,
                   logged := logged s @ [Log_debug_error_in_send e],
                   toPeerDataQueue_settled :=
                     toPeerDataQueue_settled s @ [(x, Rejected (Error_in_send e))]\<rparr>))"
  using assms
  by (auto simp: handleSendDataToPeer_def rtc_invoke_def catch_send_def isHandling_def
        handle_def)

theorem send_primitive_throw_rejects_chunk_witness:
  "sendThrows (rtcDataChannel (DataChannel_new failing_transport)) (Rtc_send (JString [104, 105]))
     = Some ''NetworkError'' \<and>
   typeof (str \<lparr>str = JString [104, 105], buffer = Undefined\<rparr>) = ''string'' \<and>
   fst (handleSendDataToPeer \<lparr>str = JString [104, 105], buffer = Undefined\<rparr>
          (DataChannel_new failing_transport)) = Rejected (Error_in_send ''NetworkError'') \<and>
   sendThrows (rtcDataChannel (DataChannel_new failing_transport))
       (Rtc_sendBuffer (JArrayBuffer [1, 2, 3])) = Some ''NetworkError'' \<and>
   fst (handleSendDataToPeer \<lparr>str = Undefined, buffer = JArrayBuffer [1, 2, 3]\<rparr>
          (DataChannel_new failing_transport)) = Rejected (Error_in_send ''NetworkError'')"
  using send_primitive_throw_rejects_chunk
          [where s = "DataChannel_new failing_transport" and e = "''NetworkError''"
             and x = "\<lparr>str = JString [104, 105], buffer = Undefined\<rparr>"
             and c = "Rtc_send (JString [104, 105])"]
        send_primitive_throw_rejects_chunk
          [where s = "DataChannel_new failing_transport" and e = "''NetworkError''"
             and x = "\<lparr>str = Undefined, buffer = JArrayBuffer [1, 2, 3]\<rparr>"
             and c = "Rtc_sendBuffer (JArrayBuffer [1, 2, 3])"]
  by (simp add: DataChannel_new_def failing_transport_def)

subsection \<open>Text payloads\<close>

text \<open>
  Claim C8. For a text payload the byte length is twice the number of code units, and
  \<open>send\<close> hands the whole text to the outbound queue as one entry
  \<open>{str: data.str}\<close>, however long it is: while the queue has no handler the entry is
  appended to the waiting entries, and while it has one the text goes to the transport's
  \<open>send\<close> in a single call. The hypothesis is that the byte length is at most
  \<open>MAX_MESSAGE_SIZE\<close>, that is a text of at most \<open>2^52\<close> code units, which every
  string a runtime can hold is; it takes the place of the size test of line 178, as the
  bound on the buffer does for binary payloads.
\<close>

theorem send_text_is_one_entry:
  assumes "length t * 2 \<le> MAX_MESSAGE_SIZE"
  shows "send_byteLength \<lparr>str = JString t, buffer = bf\<rparr> = Some (length t * 2) \<and>
         (if isHandling s
          then send \<lparr>str = JString t, buffer = bf\<rparr> s =
                 (case handleSendDataToPeer \<lparr>str = JString t, buffer = Undefined\<rparr> s of
                    (p, s') \<Rightarrow> (Some p, s')) \<and>
               sendCalls (rtcDataChannel (snd (send \<lparr>str = JString t, buffer = bf\<rparr> s))) =
                 sendCalls (rtcDataChannel s) @ [Rtc_send (JString t)] \<and>
               toPeerDataQueue (snd (send \<lparr>str = JString t, buffer = bf\<rparr> s)) =
                 toPeerDataQueue s
          else send \<lparr>str = JString t, buffer = bf\<rparr> s =
                 (Some Pending,
                  s\<lparr>toPeerDataQueue :=
                      toPeerDataQueue s @ [\<lparr>str = JString t, buffer = Undefined\<rparr>]\<rparr>))"
  using assms
  by (simp add: send_def send_byteLength_def exceeds_MAX_MESSAGE_SIZE_def
        chunkStringOntoQueue_def handle_def isHandling_def handleSendDataToPeer_def
        rtc_invoke_def catch_send_def conjestionControlSendHandler_def split: option.splits)

theorem send_text_is_one_entry_witness:
  "length (replicate 20000 (97 :: 16 word)) * 2 \<le> MAX_MESSAGE_SIZE \<and>
   CHUNK_SIZE < length (replicate 20000 (97 :: 16 word)) * 2 \<and>
   send \<lparr>str = JString (replicate 20000 97), buffer = Undefined\<rparr>
        (DataChannel_new accepting_transport) =
     (Some Pending,
      (DataChannel_new accepting_transport)
        \<lparr>toPeerDataQueue := [\<lparr>str = JString (replicate 20000 97), buffer = Undefined\<rparr>]\<rparr>)"
proof -
  have a: "length (replicate 20000 (97 :: 16 word)) * 2 \<le> MAX_MESSAGE_SIZE"
    by (simp add: MAX_MESSAGE_SIZE_def)
  have n: "\<not> isHandling (DataChannel_new accepting_transport)"
    by (simp add: isHandling_def DataChannel_new_def)
  show ?thesis
    using send_text_is_one_entry [OF a, of Undefined "DataChannel_new accepting_transport"] a n
    by (simp add: CHUNK_SIZE_def DataChannel_new_def)
qed

subsection \<open>Inbound messages\<close>

lemma onDataFromPeer_spec:
  "onDataFromPeer m s =
     (case spec_inbound_payload m of
        Some d \<Rightarrow> s\<lparr>dataFromPeerQueue := dataFromPeerQueue s @ [d]\<rparr>
      | None \<Rightarrow> s\<lparr>logged := logged s @ [Log_error_unexpected_data m]\<rparr>)"
  by (cases "msg_text m"; cases "msg_buffer m")
     (simp_all add: onDataFromPeer_def spec_inbound_payload_def)

lemma run_onmessage:
  "dataFromPeerQueue (run (map Event_onmessage ms) s) =
     dataFromPeerQueue s @ List.map_filter spec_inbound_payload ms \<and>
   logged (run (map Event_onmessage ms) s) =
     logged s @ map Log_error_unexpected_data (filter (\<lambda>m. spec_inbound_payload m = None) ms)"
proof (induction ms arbitrary: s)
  case Nil
  show ?case by simp
next
  case (Cons m ms)
  show ?case
    by (cases "spec_inbound_payload m") (simp_all add: Cons.IH onDataFromPeer_spec)
qed

text \<open>
  Claim C9. \<open>onDataFromPeer_\<close> does what the classification in the words of the
  specification says: a message whose text is a string is appended to the inbound queue as
  a text payload, else one whose buffer is an ArrayBuffer as a binary payload, and any
  other message leaves the queue as it is and adds one line to the log. The function
  returns a state for every message. For a sequence of messages the inbound queue grows by
  the payloads of the recognised messages in arrival order, and the log by one line for
  each of the others.
\<close>

theorem onDataFromPeer_classifies_in_order:
  "onDataFromPeer m s =
     (case spec_inbound_payload m of
        Some d \<Rightarrow> s\<lparr>dataFromPeerQueue := dataFromPeerQueue s @ [d]\<rparr>
      | None \<Rightarrow> s\<lparr>logged := logged s @ [Log_error_unexpected_data m]\<rparr>) \<and>
   dataFromPeerQueue (run (map Event_onmessage ms) s) =
     dataFromPeerQueue s @ List.map_filter spec_inbound_payload ms \<and>
   logged (run (map Event_onmessage ms) s) =
     logged s @ map Log_error_unexpected_data (filter (\<lambda>m. spec_inbound_payload m = None) ms)"
  using onDataFromPeer_spec [of m s] run_onmessage [of ms s] by simp

theorem onDataFromPeer_classifies_in_order_witness:
  "dataFromPeerQueue (run (map Event_onmessage
       [\<lparr>msg_text = JString [104, 105], msg_buffer = Undefined\<rparr>,
        \<lparr>msg_text = JNumber 7, msg_buffer = JObject 0\<rparr>,
        \<lparr>msg_text = Undefined, msg_buffer = JArrayBuffer [1, 2, 3]\<rparr>])
       (DataChannel_new accepting_transport)) =
     [\<lparr>str = JString [104, 105], buffer = Undefined\<rparr>,
      \<lparr>str = Undefined, buffer = JArrayBuffer [1, 2, 3]\<rparr>] \<and>
   logged (run (map Event_onmessage
       [\<lparr>msg_text = JString [104, 105], msg_buffer = Undefined\<rparr>,
        \<lparr>msg_text = JNumber 7, msg_buffer = JObject 0\<rparr>,
        \<lparr>msg_text = Undefined, msg_buffer = JArrayBuffer [1, 2, 3]\<rparr>])
       (DataChannel_new accepting_transport)) =
     [Log_error_unexpected_data \<lparr>msg_text = JNumber 7, msg_buffer = JObject 0\<rparr>]"
  using onDataFromPeer_classifies_in_order
          [where m = "\<lparr>msg_text = JNumber 7, msg_buffer = JObject 0\<rparr>"
             and ms = "[\<lparr>msg_text = JString [104, 105], msg_buffer = Undefined\<rparr>,
                        \<lparr>msg_text = JNumber 7, msg_buffer = JObject 0\<rparr>,
                        \<lparr>msg_text = Undefined, msg_buffer = JArrayBuffer [1, 2, 3]\<rparr>]"
             and s = "DataChannel_new accepting_transport"]
  by (simp add: spec_inbound_payload_def DataChannel_new_def)

subsection \<open>A payload with both fields\<close>

text \<open>
  Claim C10. When \<open>data.str\<close> is a string and \<open>data.buffer\<close> is an ArrayBuffer,
  \<open>send\<close> does exactly what it does for the text alone: the byte length is twice the
  length of the text, and unless that exceeds \<open>MAX_MESSAGE_SIZE\<close> the text goes to the
  queue as one entry \<open>{str: data.str}\<close>, unchunked; the buffer has no effect on the
  result or the state. The drain step too does for such an entry what it does for the text
  alone: it calls \<open>send\<close> of the transport with the text, not \<open>sendBuffer\<close>.
\<close>

theorem send_text_takes_precedence:
  "send \<lparr>str = JString t, buffer = JArrayBuffer b\<rparr> s =
     send \<lparr>str = JString t, buffer = Undefined\<rparr> s \<and>
   send_byteLength \<lparr>str = JString t, buffer = JArrayBuffer b\<rparr> = Some (length t * 2) \<and>
   send \<lparr>str = JString t, buffer = JArrayBuffer b\<rparr> s =
     (if length t * 2 > MAX_MESSAGE_SIZE then (Some (Rejected Error_too_big), s)
      else (case handle \<lparr>str = JString t, buffer = Undefined\<rparr> s of
              (p, s') \<Rightarrow> (Some p, s'))) \<and>
   handleSendDataToPeer \<lparr>str = JString t, buffer = JArrayBuffer b\<rparr> s =
     handleSendDataToPeer \<lparr>str = JString t, buffer = Undefined\<rparr> s \<and>
   sendCalls (rtcDataChannel (snd (handleSendDataToPeer
       \<lparr>str = JString t, buffer = JArrayBuffer b\<rparr> s))) =
     sendCalls (rtcDataChannel s) @ [Rtc_send (JString t)]"
  by (simp add: send_def send_byteLength_def exceeds_MAX_MESSAGE_SIZE_def
        chunkStringOntoQueue_def handleSendDataToPeer_def rtc_invoke_def catch_send_def
        conjestionControlSendHandler_def split: option.splits)

end
